theory Spec2Isabelle
  imports Main
begin

section \<open>Subclass enumeration\<close>

text \<open>
  A model class, as far as \<^verbatim>\<open>get_subclasses\<close> looks at it: its name, its
  \<^verbatim>\<open>__abstract__\<close> flag (set per class by the driver's metaclass, not inherited)
  and the list \<^verbatim>\<open>__subclasses__()\<close> of its direct subclasses in definition
  order. A value of this type is a class together with the whole tree below it, so it
  describes single inheritance: a class reached along two paths would appear as two
  subtrees.
\<close>

datatype cls = Cls (name: string) (abstract: bool) (subclasses: "cls list")

text \<open>
  \<^verbatim>\<open>return [item for sublist in lists for item in sublist]\<close>: the comprehension
  is two nested loops that append each item to the result.
\<close>

definition flatten :: "'a list list \<Rightarrow> 'a list" where
  "flatten lsts =
     foldl (\<lambda>result sublist. foldl (\<lambda>result item. result @ [item]) result sublist) [] lsts"

fun get_subclasses :: "cls \<Rightarrow> cls list" where
  "get_subclasses (Cls n a subs) =
     (if a then flatten (map get_subclasses subs) else [Cls n a subs])"

text \<open>
  The enumeration as the specification words it: for an abstract type the concatenation of
  the enumerations of its direct subclasses, in declaration order; for a concrete type the
  type alone.
\<close>

fun enumerate_spec :: "cls \<Rightarrow> cls list" where
  "enumerate_spec (Cls n a subs) =
     (if a then concat (map enumerate_spec subs) else [Cls n a subs])"

text \<open>Every type of the tree rooted at a class, the class itself first.\<close>

fun tree_types :: "cls \<Rightarrow> cls list" where
  "tree_types (Cls n a subs) = Cls n a subs # concat (map tree_types subs)"

definition concrete_types :: "cls \<Rightarrow> cls list" where
  "concrete_types c = filter (\<lambda>d. \<not> abstract d) (tree_types c)"



section \<open>Python values and exceptions\<close>

text \<open>
  The values an application configuration holds, with Python's truth test: \<^verbatim>\<open>None\<close>,
  \<^verbatim>\<open>False\<close>, zero and the empty string, list and dict are falsy.
\<close>

datatype pyval =
    PyNone
  | PyBool bool
  | PyInt int
  | PyStr string
  | PyList "pyval list"
  | PyDict "(string \<times> pyval) list"

fun truthy :: "pyval \<Rightarrow> bool" where
  "truthy PyNone = False"
| "truthy (PyBool b) = b"
| "truthy (PyInt n) = (n \<noteq> 0)"
| "truthy (PyStr s) = (s \<noteq> [])"
| "truthy (PyList xs) = (xs \<noteq> [])"
| "truthy (PyDict kvs) = (kvs \<noteq> [])"

text \<open>
  The exceptions of the module, by kind: its own \<^verbatim>\<open>NoConfig\<close>, the
  \<^verbatim>\<open>KeyError\<close> of a missing dict key, the \<^verbatim>\<open>AttributeError\<close> of an attribute
  read on \<^verbatim>\<open>None\<close> or before it is assigned, the driver's
  \<^verbatim>\<open>OperationTimedOut\<close>, and any other exception raised inside the driver,
  by its name. \<^verbatim>\<open>except self.error\<close> is modelled as equality of kinds
  (\<^verbatim>\<open>OperationTimedOut\<close> has no subclasses in the driver).
\<close>

datatype exc =
    NoConfig
  | KeyError string
  | AttributeError string
  | OperationTimedOut
  | DriverError string

datatype 'a outcome = Returns 'a | Raises exc


section \<open>The process state\<close>

text \<open>
  A session's \<^verbatim>\<open>default_timeout\<close> is \<^verbatim>\<open>None\<close> or a number of seconds. The
  code only copies it, tests its truth and assigns \<^verbatim>\<open>100\<close>, so the numbers are
  taken as integers.
\<close>

type_synonym timeout = "int option"

definition truthy_timeout :: "timeout \<Rightarrow> bool" where
  "truthy_timeout t = (case t of None \<Rightarrow> False | Some n \<Rightarrow> n \<noteq> 0)"

text \<open>Session objects are shared and mutated, so they are held by reference.\<close>

type_synonym ref = nat

text \<open>
  What the module reads and writes outside its own objects:
  \<^verbatim>\<open>models.DEFAULT_KEYSPACE\<close>; the driver's current session
  \<^verbatim>\<open>cassandra.cqlengine.connection.session\<close> (\<^verbatim>\<open>None\<close> when there is none);
  the \<^verbatim>\<open>default_timeout\<close> attribute of every session object; the lines printed
  and the warnings given to a logger; and the calls made so far to operations run through
  \<^verbatim>\<open>handel_db_timeout\<close>, each with its argument and the session timeouts in
  effect when it was made.
\<close>

record 'arg world =
  DEFAULT_KEYSPACE :: pyval
  connection_session :: "ref option"
  default_timeout :: "ref \<Rightarrow> timeout"
  stdout :: "string list"
  logger_warnings :: "string list"
  invoked :: "('arg \<times> (ref \<Rightarrow> timeout)) list"

text \<open>
  An operation of the driver (\<^verbatim>\<open>drop_keyspace\<close>, \<^verbatim>\<open>drop_table\<close>) is not
  part of the module: its outcome is a parameter that may depend on its argument and on
  the whole state, in particular on how often operations have been invoked before and on
  the session timeouts. It does not assign \<^verbatim>\<open>default_timeout\<close> itself.
\<close>

type_synonym ('arg, 'a) operation = "'arg \<Rightarrow> 'arg world \<Rightarrow> 'a outcome"

definition invoke ::
  "('arg, 'a) operation \<Rightarrow> 'arg \<Rightarrow> 'arg world \<Rightarrow> 'a outcome \<times> 'arg world" where
  "invoke f args w = (f args w, w\<lparr>invoked := invoked w @ [(args, default_timeout w)]\<rparr>)"


section \<open>The timeout-retry executor\<close>

text \<open>
  \<^verbatim>\<open>logger\<close> says whether a logger object was given; \<^verbatim>\<open>session\<close> is the
  session handle, \<^verbatim>\<open>None\<close> until one is given or resolved.
\<close>

record ('arg, 'a) handel_db_timeout =
  func :: "('arg, 'a) operation"
  tries :: int
  logger :: bool
  session :: "ref option"
  error :: exc

text \<open>The constructor with its defaults: \<^verbatim>\<open>handel_db_timeout(func)\<close>.\<close>

definition handel_db_timeout_init :: "('arg, 'a) operation \<Rightarrow> ('arg, 'a) handel_db_timeout" where
  "handel_db_timeout_init f =
     \<lparr>func = f, tries = 2, logger = False, session = None, error = OperationTimedOut\<rparr>"

definition warning ::
  "('arg, 'a) handel_db_timeout \<Rightarrow> string \<Rightarrow> 'arg world \<Rightarrow> 'arg world" where
  "warning self mesg w =
     (if logger self then w\<lparr>logger_warnings := logger_warnings w @ [mesg]\<rparr>
      else w\<lparr>stdout := stdout w @ [mesg]\<rparr>)"

text \<open>
  The \<^verbatim>\<open>except self.error\<close> clause: warn, resolve the session from the driver
  when the executor has none, and when there is a session record its timeout in the local
  \<^verbatim>\<open>default_timeout\<close> (here \<open>saved\<close>) and set it to 100.
\<close>

definition on_error ::
  "('arg, 'a) handel_db_timeout \<Rightarrow> timeout \<Rightarrow> 'arg world \<Rightarrow>
     ('arg, 'a) handel_db_timeout \<times> timeout \<times> 'arg world" where
  "on_error self saved w =
     (let w1 = warning self ''Taking Longer to drop....'' w;
          self1 = (case session self of
                     None \<Rightarrow> self\<lparr>session := connection_session w1\<rparr>
                   | Some s \<Rightarrow> self)
      in case session self1 of
           None \<Rightarrow> (self1, saved, w1)
         | Some s \<Rightarrow>
             (self1, default_timeout w1 s,
              w1\<lparr>default_timeout := (default_timeout w1)(s := Some 100)\<rparr>))"

text \<open>
  The \<^verbatim>\<open>finally\<close> clause, run at the end of every attempt:
  \<^verbatim>\<open>if self.session and default_timeout: self.session.default_timeout = default_timeout\<close>.
\<close>

definition on_finally ::
  "('arg, 'a) handel_db_timeout \<Rightarrow> timeout \<Rightarrow> 'arg world \<Rightarrow> 'arg world" where
  "on_finally self saved w =
     (case session self of
        None \<Rightarrow> w
      | Some s \<Rightarrow>
          if truthy_timeout saved then w\<lparr>default_timeout := (default_timeout w)(s := saved)\<rparr>
          else w)"

text \<open>
  The loop \<^verbatim>\<open>for _ in range(self.tries)\<close> with the attempts that remain, and
  \<^verbatim>\<open>raise self.error\<close> after it. The result is the exception raised or the value
  returned, with the executor (whose \<^verbatim>\<open>session\<close> the loop may assign) and the
  state as the call leaves them.
\<close>

fun attempts ::
  "nat \<Rightarrow> ('arg, 'a) handel_db_timeout \<Rightarrow> 'arg \<Rightarrow> timeout \<Rightarrow> 'arg world \<Rightarrow>
     (exc + 'a) \<times> ('arg, 'a) handel_db_timeout \<times> 'arg world" where
  "attempts 0 self args saved w = (Inl (error self), self, w)"
| "attempts (Suc n) self args saved w =
     (case invoke (func self) args w of
        (Returns v, w1) \<Rightarrow> (Inr v, self, on_finally self saved w1)
      | (Raises e, w1) \<Rightarrow>
          if e = error self then
            (case on_error self saved w1 of
               (self2, saved2, w2) \<Rightarrow> attempts n self2 args saved2 (on_finally self2 saved2 w2))
          else (Inl e, self, on_finally self saved w1))"

definition execute ::
  "('arg, 'a) handel_db_timeout \<Rightarrow> 'arg \<Rightarrow> 'arg world \<Rightarrow>
     (exc + 'a) \<times> ('arg, 'a) handel_db_timeout \<times> 'arg world" where
  "execute self args w = attempts (nat (tries self)) self args None w"

text \<open>What a call left behind: its result, the state, the invocations it added.\<close>

definition result_of :: "'r \<times> 's \<times> 'w \<Rightarrow> 'r" where
  "result_of r = fst r"

definition state_of :: "'r \<times> 's \<times> 'w \<Rightarrow> 'w" where
  "state_of r = snd (snd r)"


section \<open>The facade\<close>

text \<open>The application, as far as the module reads it: its configuration mapping.\<close>

record flask_app =
  config :: "string \<rightharpoonup> pyval"

text \<open>\<^verbatim>\<open>app.config.get(key, default)\<close>\<close>

definition config_get :: "flask_app \<Rightarrow> string \<Rightarrow> pyval \<Rightarrow> pyval" where
  "config_get a k d = (case config a k of None \<Rightarrow> d | Some v \<Rightarrow> v)"

text \<open>
  The attributes of a \<^verbatim>\<open>CQLAlchemy\<close> object that the module's own code reads or
  assigns: \<^verbatim>\<open>app\<close>, \<^verbatim>\<open>Model\<close> (the driver's model base class with the tree
  of classes defined from it), and \<^verbatim>\<open>_hosts_\<close> and \<^verbatim>\<open>_keyspace_\<close>
  (here \<open>attr_hosts\<close> and \<open>attr_keyspace\<close>), which do not exist (\<open>None\<close> here) until
  \<^verbatim>\<open>init_app\<close> assigns them.
\<close>

record CQLAlchemy =
  app :: "flask_app option"
  Model :: cls
  attr_hosts :: "pyval option"
  attr_keyspace :: "pyval option"

text \<open>
  The call \<^verbatim>\<open>connection.setup(hosts, keyspace, consistency=..., lazy_connect=...,
  retry_connect=..., **setup_kwargs)\<close> belongs to the driver: it is a parameter that gets
  the arguments and the state, and gives the name of the exception it raises, if any, and
  the state it leaves.
\<close>

record setup_args =
  setup_hosts :: pyval
  setup_keyspace :: pyval
  setup_consistency :: pyval
  setup_lazy_connect :: pyval
  setup_retry_connect :: pyval
  setup_kwargs :: pyval

type_synonym 'arg connection_setup =
  "setup_args \<Rightarrow> 'arg world \<Rightarrow> string option \<times> 'arg world"

definition init_app ::
  "'arg connection_setup \<Rightarrow> CQLAlchemy \<Rightarrow> flask_app \<Rightarrow> 'arg world \<Rightarrow>
     (exc + unit) \<times> CQLAlchemy \<times> 'arg world" where
  "init_app connection_setup self a w =
     (case config a ''CASSANDRA_HOSTS'' of
        None \<Rightarrow> (Inl (KeyError ''CASSANDRA_HOSTS''), self, w)
      | Some hosts \<Rightarrow>
          (let self1 = self\<lparr>attr_hosts := Some hosts\<rparr> in
           case config a ''CASSANDRA_KEYSPACE'' of
             None \<Rightarrow> (Inl (KeyError ''CASSANDRA_KEYSPACE''), self1, w)
           | Some keyspace \<Rightarrow>
               (let self2 = self1\<lparr>attr_keyspace := Some keyspace\<rparr>;
                    consistency = config_get a ''CASSANDRA_CONSISTENCY'' (PyInt 1);
                    lazy_connect = config_get a ''CASSANDRA_LAZY_CONNECT'' (PyBool False);
                    retry_connect = config_get a ''CASSANDRA_RETRY_CONNECT'' (PyBool False);
                    kwargs = config_get a ''CASSANDRA_SETUP_KWARGS'' (PyDict [])
                in if \<not> truthy hosts \<and> truthy keyspace then (Inl NoConfig, self2, w)
                   else
                     (case connection_setup
                             \<lparr>setup_hosts = hosts, setup_keyspace = keyspace,
                              setup_consistency = consistency,
                              setup_lazy_connect = lazy_connect,
                              setup_retry_connect = retry_connect,
                              setup_kwargs = kwargs\<rparr> w of
                        (Some err, w1) \<Rightarrow> (Inl (DriverError err), self2, w1)
                      | (None, w1) \<Rightarrow> (Inr (), self2, w1)))))"

text \<open>
  The constructor \<^verbatim>\<open>CQLAlchemy(app)\<close>: it stores \<^verbatim>\<open>app\<close> and calls
  \<^verbatim>\<open>init_app\<close> when an application is given. An exception leaves no object.
\<close>

definition CQLAlchemy_init ::
  "'arg connection_setup \<Rightarrow> cls \<Rightarrow> flask_app option \<Rightarrow> 'arg world \<Rightarrow>
     (exc + CQLAlchemy) \<times> 'arg world" where
  "CQLAlchemy_init connection_setup models_Model a w =
     (let self = \<lparr>app = a, Model = models_Model, attr_hosts = None, attr_keyspace = None\<rparr> in
      case a of
        None \<Rightarrow> (Inr self, w)
      | Some the_app \<Rightarrow>
          (case init_app connection_setup self the_app w of
             (Inl e, self1, w1) \<Rightarrow> (Inl e, w1)
           | (Inr u, self1, w1) \<Rightarrow> (Inr self1, w1)))"

text \<open>
  \<^verbatim>\<open>set_keyspace(keyspace_name=None)\<close>. Reading \<^verbatim>\<open>self.app.config\<close> when
  \<^verbatim>\<open>self.app\<close> is \<^verbatim>\<open>None\<close> raises \<^verbatim>\<open>AttributeError\<close>.
\<close>

definition set_keyspace ::
  "CQLAlchemy \<Rightarrow> pyval \<Rightarrow> 'arg world \<Rightarrow> (exc + unit) \<times> CQLAlchemy \<times> 'arg world" where
  "set_keyspace self keyspace_name w =
     (if \<not> truthy keyspace_name then
        (case app self of
           None \<Rightarrow> (Inl (AttributeError ''config''), self, w)
         | Some a \<Rightarrow>
             (case config a ''CASSANDRA_KEYSPACE'' of
                None \<Rightarrow> (Inl (KeyError ''CASSANDRA_KEYSPACE''), self, w)
              | Some configured \<Rightarrow>
                  (Inr (), self\<lparr>attr_keyspace := Some configured\<rparr>,
                   w\<lparr>DEFAULT_KEYSPACE := configured\<rparr>)))
      else
        (Inr (), self\<lparr>attr_keyspace := Some keyspace_name\<rparr>,
         w\<lparr>DEFAULT_KEYSPACE := keyspace_name\<rparr>))"

text \<open>
  \<^verbatim>\<open>drop_tables(db)\<close>: one executor with the default settings per enumerated
  model, in order; an exception from \<^verbatim>\<open>execute\<close> ends the loop. The driver's
  \<^verbatim>\<open>drop_table\<close> is a parameter.
\<close>

fun drop_each ::
  "(cls, 'a) operation \<Rightarrow> cls list \<Rightarrow> cls world \<Rightarrow> (exc + unit) \<times> cls world" where
  "drop_each drop_table [] w = (Inr (), w)"
| "drop_each drop_table (model # models) w =
     (case execute (handel_db_timeout_init drop_table) model w of
        (Inl e, dt, w1) \<Rightarrow> (Inl e, w1)
      | (Inr v, dt, w1) \<Rightarrow> drop_each drop_table models w1)"

definition drop_tables ::
  "(cls, 'a) operation \<Rightarrow> CQLAlchemy \<Rightarrow> cls world \<Rightarrow> (exc + unit) \<times> cls world" where
  "drop_tables drop_table db w = drop_each drop_table (get_subclasses (Model db)) w"


section \<open>Concrete inputs\<close>

text \<open>
  The model tree of the specification's scenario: \<^verbatim>\<open>Animal\<close> is abstract, \<^verbatim>\<open>Dog\<close>
  and \<^verbatim>\<open>Cat\<close> are concrete subclasses of it, \<^verbatim>\<open>Puppy\<close> is a concrete subclass of
  \<^verbatim>\<open>Dog\<close>; all hang below the driver's abstract \<^verbatim>\<open>Model\<close>.
\<close>

definition Puppy :: cls where
  "Puppy = Cls ''Puppy'' False []"

definition Dog :: cls where
  "Dog = Cls ''Dog'' False [Puppy]"

definition Cat :: cls where
  "Cat = Cls ''Cat'' False []"

definition Animal :: cls where
  "Animal = Cls ''Animal'' True [Dog, Cat]"

definition models_Model :: cls where
  "models_Model = Cls ''Model'' True [Animal]"

text \<open>A base whose tree has no concrete type.\<close>

definition abstract_only :: cls where
  "abstract_only = Cls ''Base'' True [Cls ''Mixin'' True [], Cls ''Other'' True []]"

text \<open>
  A state with one session, number 0, which is the driver's current session; every
  session has the driver's usual default timeout of 10 seconds. The second state has
  sessions without a default timeout (\<^verbatim>\<open>None\<close>, which the driver allows).
\<close>

definition world0 :: "'arg world" where
  "world0 =
     \<lparr>DEFAULT_KEYSPACE = PyNone, connection_session = Some 0,
      default_timeout = (\<lambda>s. Some 10), stdout = [], logger_warnings = [], invoked = []\<rparr>"

definition world_no_timeout :: "'arg world" where
  "world_no_timeout =
     \<lparr>DEFAULT_KEYSPACE = PyNone, connection_session = Some 0,
      default_timeout = (\<lambda>s. None), stdout = [], logger_warnings = [], invoked = []\<rparr>"

text \<open>
  Operations: one that always times out, one that times out the first time it is invoked and
  then returns 7, one that always succeeds, one that fails with another error.
\<close>

definition always_times_out :: "('arg, int) operation" where
  "always_times_out args w = Raises OperationTimedOut"

definition times_out_once :: "('arg, int) operation" where
  "times_out_once args w = (if length (invoked w) < 1 then Raises OperationTimedOut else Returns 7)"

definition always_succeeds :: "('arg, unit) operation" where
  "always_succeeds args w = Returns ()"

definition invalid_request :: "('arg, int) operation" where
  "invalid_request args w = Raises (DriverError ''InvalidRequest'')"

text \<open>
  Application configurations: a complete one, one whose keyspace is the empty string, and
  one without hosts.
\<close>

definition app_ok :: flask_app where
  "app_ok =
     \<lparr>config = map_of
        [(''CASSANDRA_HOSTS'', PyList [PyStr ''127.0.0.1'']),
         (''CASSANDRA_KEYSPACE'', PyStr ''ks'')]\<rparr>"

definition app_empty_keyspace :: flask_app where
  "app_empty_keyspace =
     \<lparr>config = map_of
        [(''CASSANDRA_HOSTS'', PyList [PyStr ''127.0.0.1'']),
         (''CASSANDRA_KEYSPACE'', PyStr [])]\<rparr>"

definition app_no_hosts :: flask_app where
  "app_no_hosts = \<lparr>config = map_of [(''CASSANDRA_KEYSPACE'', PyStr ''ks'')]\<rparr>"

text \<open>A driver whose \<^verbatim>\<open>connection.setup\<close> accepts every call and changes nothing else.\<close>

definition setup_accepts :: "'arg connection_setup" where
  "setup_accepts args w = (None, w)"

text \<open>
  Facades: as \<^verbatim>\<open>CQLAlchemy()\<close> leaves one, the same after \<^verbatim>\<open>init_app\<close> with the
  complete configuration, one made by \<^verbatim>\<open>CQLAlchemy(app)\<close> from the complete
  configuration, and one made so from the configuration with the empty keyspace.
\<close>

definition facade_unbound :: CQLAlchemy where
  "facade_unbound = \<lparr>app = None, Model = models_Model, attr_hosts = None, attr_keyspace = None\<rparr>"

definition facade_late_bound :: CQLAlchemy where
  "facade_late_bound =
     \<lparr>app = None, Model = models_Model,
      attr_hosts = Some (PyList [PyStr ''127.0.0.1'']), attr_keyspace = Some (PyStr ''ks'')\<rparr>"

definition facade_bound :: CQLAlchemy where
  "facade_bound =
     \<lparr>app = Some app_ok, Model = models_Model,
      attr_hosts = Some (PyList [PyStr ''127.0.0.1'']), attr_keyspace = Some (PyStr ''ks'')\<rparr>"

definition facade_empty_keyspace :: CQLAlchemy where
  "facade_empty_keyspace =
     \<lparr>app = Some app_empty_keyspace, Model = models_Model,
      attr_hosts = Some (PyList [PyStr ''127.0.0.1'']), attr_keyspace = Some (PyStr [])\<rparr>"


section \<open>Properties of the enumeration\<close>

lemma append_items: "foldl (\<lambda>result item. result @ [item]) acc xs = acc @ xs"
  by (induction xs arbitrary: acc) simp_all

lemma flatten_from:
  "foldl (\<lambda>result sublist. foldl (\<lambda>result item. result @ [item]) result sublist) acc lsts
     = acc @ concat lsts"
  by (induction lsts arbitrary: acc) (simp_all add: append_items)

lemma flatten_concat: "flatten lsts = concat lsts"
  by (simp add: flatten_def flatten_from)

lemma get_subclasses_unfold:
  "get_subclasses c =
     (if abstract c then concat (map get_subclasses (subclasses c)) else [c])"
  by (cases c) (simp add: flatten_concat)

lemma get_subclasses_spec: "get_subclasses c = enumerate_spec c"
proof (induction c rule: get_subclasses.induct)
  case (1 n a subs)
  show ?case
  proof (cases a)
    case True
    with 1 have "get_subclasses s = enumerate_spec s" if "s \<in> set subs" for s
      using that by simp
    then have eq: "map get_subclasses subs = map enumerate_spec subs"
      by simp
    from True show ?thesis
      by (simp add: flatten_concat eq)
  next
    case False
    then show ?thesis by simp
  qed
qed

lemma self_in_tree: "c \<in> set (tree_types c)"
  by (cases c) simp

lemma concrete_types_empty:
  "concrete_types c = [] \<longleftrightarrow> (\<forall>d \<in> set (tree_types c). abstract d)"
  by (simp add: concrete_types_def filter_empty_conv)

lemma no_concrete_empty: "concrete_types c = [] \<Longrightarrow> get_subclasses c = []"
proof (induction c rule: get_subclasses.induct)
  case (1 n a subs)
  from "1.prems" have all: "\<forall>d \<in> set (tree_types (Cls n a subs)). abstract d"
    by (simp only: concrete_types_empty)
  then have a: "a"
    by simp
  have "get_subclasses s = []" if s: "s \<in> set subs" for s
  proof -
    from all s have "\<forall>d \<in> set (tree_types s). abstract d"
      by auto
    then have "concrete_types s = []"
      by (simp only: concrete_types_empty)
    with "1.IH" a s show ?thesis by simp
  qed
  with a show ?case
    by (simp add: flatten_concat)
qed

text \<open>
  C6. For every type, \<^verbatim>\<open>get_subclasses\<close> computes the reference function of
  the specification: the flattened enumerations of the direct subclasses, in declaration
  order, when the type is abstract, and the one-element sequence of the type when it is
  concrete. Consequently, when no type of the tree of a base type is concrete (the base
  counted with its subclasses, as \<^verbatim>\<open>issubclass\<close> counts it), the result is
  empty.
\<close>

theorem get_subclasses_is_reference:
  "get_subclasses c = enumerate_spec c \<and>
   get_subclasses c =
     (if abstract c then concat (map get_subclasses (subclasses c)) else [c]) \<and>
   (concrete_types c = [] \<longrightarrow> get_subclasses c = [])"
  using get_subclasses_spec [of c] get_subclasses_unfold [of c] no_concrete_empty [of c]
  by blast

text \<open>
  The hypothesis of C6 holds of a base with two abstract subclasses and nothing else.
\<close>

theorem get_subclasses_is_reference_witness:
  "concrete_types abstract_only = [] \<and> get_subclasses abstract_only = [] \<and>
   get_subclasses abstract_only = enumerate_spec abstract_only"
proof -
  have h: "concrete_types abstract_only = []"
    by (simp add: concrete_types_def abstract_only_def)
  with get_subclasses_is_reference [of abstract_only] show ?thesis
    by blast
qed


section \<open>Properties of the executor\<close>

lemma invoked_on_finally: "invoked (on_finally self saved w) = invoked w"
  by (simp add: on_finally_def split: option.splits)

lemma invoked_warning: "invoked (warning self mesg w) = invoked w"
  by (simp add: warning_def)

lemma on_error_keeps:
  assumes "on_error self saved w = (self2, saved2, w2)"
  shows "func self2 = func self" and "error self2 = error self" and "invoked w2 = invoked w"
  using assms
  by (auto simp: on_error_def Let_def invoked_warning split: option.splits)

lemma invoke_eq:
  "invoke f args w = (f args w, w\<lparr>invoked := invoked w @ [(args, default_timeout w)]\<rparr>)"
  by (simp add: invoke_def)

lemma attempts_all_raise:
  assumes "\<forall>w'. length (invoked w') < length (invoked w) + n \<longrightarrow>
             func self args w' = Raises (error self)"
  shows "result_of (attempts n self args saved w) = Inl (error self) \<and>
         length (invoked (state_of (attempts n self args saved w))) = length (invoked w) + n"
  using assms
proof (induction n arbitrary: self saved w)
  case 0
  show ?case by (simp add: result_of_def state_of_def)
next
  case (Suc n)
  let ?w1 = "w\<lparr>invoked := invoked w @ [(args, default_timeout w)]\<rparr>"
  from Suc.prems have raise: "func self args w = Raises (error self)"
    by simp
  obtain self2 saved2 w2 where oe: "on_error self saved ?w1 = (self2, saved2, w2)"
    by (cases "on_error self saved ?w1") auto
  let ?w3 = "on_finally self2 saved2 w2"
  have len: "length (invoked ?w3) = Suc (length (invoked w))"
    using on_error_keeps(3) [OF oe] by (simp add: invoked_on_finally)
  have step: "attempts (Suc n) self args saved w = attempts n self2 args saved2 ?w3"
    using raise oe by (simp add: invoke_eq)
  have "\<forall>w'. length (invoked w') < length (invoked ?w3) + n \<longrightarrow>
          func self2 args w' = Raises (error self2)"
    using Suc.prems len on_error_keeps(1,2) [OF oe] by simp
  from Suc.IH [OF this, of saved2] show ?case
    unfolding step using len on_error_keeps(2) [OF oe] by simp
qed

lemma attempts_succeed_at:
  assumes "j < n"
    and "\<forall>w'. length (invoked w') < length (invoked w) + j \<longrightarrow>
             func self args w' = Raises (error self)"
    and "\<forall>w'. length (invoked w') = length (invoked w) + j \<longrightarrow>
             func self args w' = Returns v"
  shows "result_of (attempts n self args saved w) = Inr v \<and>
         length (invoked (state_of (attempts n self args saved w))) = length (invoked w) + Suc j"
  using assms
proof (induction j arbitrary: n self saved w)
  case 0
  then obtain m where n: "n = Suc m"
    by (cases n) auto
  from "0.prems"(3) have "func self args w = Returns v"
    by simp
  then show ?case
    by (simp add: n invoke_eq result_of_def state_of_def invoked_on_finally)
next
  case (Suc j)
  then obtain m where n: "n = Suc m" and jm: "j < m"
    by (cases n) auto
  let ?w1 = "w\<lparr>invoked := invoked w @ [(args, default_timeout w)]\<rparr>"
  from Suc.prems(2) have raise: "func self args w = Raises (error self)"
    by simp
  obtain self2 saved2 w2 where oe: "on_error self saved ?w1 = (self2, saved2, w2)"
    by (cases "on_error self saved ?w1") auto
  let ?w3 = "on_finally self2 saved2 w2"
  have len: "length (invoked ?w3) = Suc (length (invoked w))"
    using on_error_keeps(3) [OF oe] by (simp add: invoked_on_finally)
  have step: "attempts n self args saved w = attempts m self2 args saved2 ?w3"
    using raise oe by (simp add: n invoke_eq)
  have a: "\<forall>w'. length (invoked w') < length (invoked ?w3) + j \<longrightarrow>
          func self2 args w' = Raises (error self2)"
    using Suc.prems(2) len on_error_keeps(1,2) [OF oe] by simp
  have b: "\<forall>w'. length (invoked w') = length (invoked ?w3) + j \<longrightarrow>
          func self2 args w' = Returns v"
    using Suc.prems(3) len on_error_keeps(1) [OF oe] by simp
  from Suc.IH [OF jm a b, of saved2] show ?case
    unfolding step using len by simp
qed

lemma on_finally_None: "on_finally self None w = w"
  by (simp add: on_finally_def truthy_timeout_def split: option.splits)

lemma attempts_other_error:
  assumes "func self args w = Raises e" and "e \<noteq> error self"
  shows "attempts (Suc n) self args saved w =
           (Inl e, self, on_finally self saved (w\<lparr>invoked := invoked w @ [(args, default_timeout w)]\<rparr>))"
  using assms by (simp add: invoke_eq)

text \<open>
  C1. The attempt bound defaults to 2. When the operation raises the retryable error at
  each of the \<^verbatim>\<open>tries\<close> invocations that the call can make,
  \<^verbatim>\<open>execute\<close> invokes it exactly \<^verbatim>\<open>tries\<close> times and then raises the
  retryable error. When it raises the retryable error at the first \<open>k - 1\<close> invocations
  and returns \<open>v\<close> at invocation \<open>k\<close>, with \<open>1 \<le> k \<le> tries\<close>,
  \<^verbatim>\<open>execute\<close> returns \<open>v\<close> after exactly \<open>k\<close> invocations. An invocation is
  counted by the entry it adds to \<open>invoked\<close>; the \<open>i\<close>-th invocation of the call is the
  one made in a state where \<open>i - 1\<close> more invocations are recorded than at the start.
\<close>

theorem execute_bounded_retry:
  "tries (handel_db_timeout_init f) = 2 \<and>
   ((\<forall>w'. length (invoked w') < length (invoked w) + nat (tries self) \<longrightarrow>
           func self args w' = Raises (error self)) \<longrightarrow>
      result_of (execute self args w) = Inl (error self) \<and>
      length (invoked (state_of (execute self args w))) = length (invoked w) + nat (tries self)) \<and>
   (1 \<le> k \<and> int k \<le> tries self \<and>
    (\<forall>w'. length (invoked w') < length (invoked w) + (k - 1) \<longrightarrow>
           func self args w' = Raises (error self)) \<and>
    (\<forall>w'. length (invoked w') = length (invoked w) + (k - 1) \<longrightarrow>
           func self args w' = Returns v) \<longrightarrow>
      result_of (execute self args w) = Inr v \<and>
      length (invoked (state_of (execute self args w))) = length (invoked w) + k)"
proof (intro conjI impI)
  show "tries (handel_db_timeout_init f) = 2"
    by (simp add: handel_db_timeout_init_def)
next
  assume "\<forall>w'. length (invoked w') < length (invoked w) + nat (tries self) \<longrightarrow>
            func self args w' = Raises (error self)"
  from attempts_all_raise [OF this, of None]
  show "result_of (execute self args w) = Inl (error self)"
    and "length (invoked (state_of (execute self args w))) = length (invoked w) + nat (tries self)"
    by (simp_all add: execute_def)
next
  assume h: "1 \<le> k \<and> int k \<le> tries self \<and>
    (\<forall>w'. length (invoked w') < length (invoked w) + (k - 1) \<longrightarrow>
           func self args w' = Raises (error self)) \<and>
    (\<forall>w'. length (invoked w') = length (invoked w) + (k - 1) \<longrightarrow>
           func self args w' = Returns v)"
  then have lt: "k - 1 < nat (tries self)"
    by linarith
  from h have k: "Suc (k - 1) = k"
    by simp
  from attempts_succeed_at [OF lt, of w self args v None] h
  have "result_of (attempts (nat (tries self)) self args None w) = Inr v \<and>
        length (invoked (state_of (attempts (nat (tries self)) self args None w))) =
          length (invoked w) + Suc (k - 1)"
    by blast
  then show "result_of (execute self args w) = Inr v"
    and "length (invoked (state_of (execute self args w))) = length (invoked w) + k"
    by (simp_all only: execute_def k)
qed

text \<open>
  The hypotheses of C1 hold of an operation that always times out, and of one that times out
  once and then returns 7, each run with the default bound of 2.
\<close>

theorem execute_bounded_retry_witness:
  "result_of (execute (handel_db_timeout_init always_times_out) () world0) = Inl OperationTimedOut \<and>
   length (invoked (state_of (execute (handel_db_timeout_init always_times_out) () world0))) = 2 \<and>
   result_of (execute (handel_db_timeout_init times_out_once) () world0) = Inr 7 \<and>
   length (invoked (state_of (execute (handel_db_timeout_init times_out_once) () world0))) = 2"
proof -
  let ?a = "handel_db_timeout_init always_times_out :: (unit, int) handel_db_timeout"
  let ?b = "handel_db_timeout_init times_out_once :: (unit, int) handel_db_timeout"
  have a: "\<forall>w'. length (invoked w') < length (invoked (world0 :: unit world)) + nat (tries ?a) \<longrightarrow>
             func ?a () w' = Raises (error ?a)"
    by (simp add: handel_db_timeout_init_def always_times_out_def)
  have b: "1 \<le> (2::nat) \<and> int 2 \<le> tries ?b \<and>
    (\<forall>w'. length (invoked w') < length (invoked (world0 :: unit world)) + (2 - 1) \<longrightarrow>
           func ?b () w' = Raises (error ?b)) \<and>
    (\<forall>w'. length (invoked w') = length (invoked (world0 :: unit world)) + (2 - 1) \<longrightarrow>
           func ?b () w' = Returns 7)"
    by (simp add: handel_db_timeout_init_def times_out_once_def world0_def)
  from a execute_bounded_retry [of always_times_out world0 ?a "()" 2 7]
  have 1: "result_of (execute ?a () world0) = Inl (error ?a) \<and>
      length (invoked (state_of (execute ?a () world0))) = length (invoked (world0 :: unit world)) + nat (tries ?a)"
    by blast
  from b execute_bounded_retry [of always_times_out world0 ?b "()" 2 7]
  have 2: "result_of (execute ?b () world0) = Inr 7 \<and>
      length (invoked (state_of (execute ?b () world0))) = length (invoked (world0 :: unit world)) + 2"
    by blast
  from 1 2 show ?thesis
    by (simp add: handel_db_timeout_init_def world0_def)
qed

text \<open>
  C7. When the attempt bound allows a first invocation and the operation raises there an
  error of another kind than the retryable one, \<^verbatim>\<open>execute\<close> raises that error at
  once: the operation has been invoked exactly once, and nothing else has changed.
\<close>

theorem execute_other_error_propagates:
  assumes "0 < tries self" and "func self args w = Raises e" and "e \<noteq> error self"
  shows "execute self args w =
           (Inl e, self, w\<lparr>invoked := invoked w @ [(args, default_timeout w)]\<rparr>)"
proof -
  from assms(1) obtain n where n: "nat (tries self) = Suc n"
    by (cases "nat (tries self)") auto
  show ?thesis
    unfolding execute_def n attempts_other_error [OF assms(2,3)]
    by (simp add: on_finally_None)
qed

text \<open>
  The hypotheses of C7 hold of an operation that fails with an invalid request, run with
  the default bound.
\<close>

theorem execute_other_error_propagates_witness:
  "execute (handel_db_timeout_init invalid_request) () world0 =
     (Inl (DriverError ''InvalidRequest''), handel_db_timeout_init invalid_request,
      world0\<lparr>invoked := [((), default_timeout world0)]\<rparr>)"
proof -
  let ?s = "handel_db_timeout_init invalid_request :: (unit, int) handel_db_timeout"
  have 1: "0 < tries ?s"
    by (simp add: handel_db_timeout_init_def)
  have 2: "func ?s () world0 = Raises (DriverError ''InvalidRequest'')"
    by (simp add: handel_db_timeout_init_def invalid_request_def)
  have 3: "DriverError ''InvalidRequest'' \<noteq> error ?s"
    by (simp add: handel_db_timeout_init_def)
  from execute_other_error_propagates [OF 1 2 3] show ?thesis
    by (simp add: world0_def)
qed

text \<open>
  What the \<^verbatim>\<open>finally\<close> clause achieves: when every session has a truthy default
  timeout, \<^verbatim>\<open>execute\<close> leaves the timeouts as they were, whatever the operation
  does, and every invocation it makes finds them as they were: the value 100 is never in
  effect while the operation runs.
\<close>

lemma on_finally_same:
  "\<forall>s. session self = Some s \<longrightarrow> truthy_timeout saved \<longrightarrow> saved = default_timeout w s \<Longrightarrow>
     on_finally self saved w = w"
  by (auto simp: on_finally_def split: option.splits)

lemma on_error_then_finally:
  assumes "on_error self saved w = (self2, saved2, w2)"
    and "\<forall>s. truthy_timeout (default_timeout w s)"
    and "\<forall>s. session self = Some s \<longrightarrow> truthy_timeout saved \<longrightarrow> saved = default_timeout w s"
  shows "default_timeout (on_finally self2 saved2 w2) = default_timeout w"
    and "\<forall>s. session self2 = Some s \<longrightarrow> truthy_timeout saved2 \<longrightarrow> saved2 = default_timeout w s"
  using assms
  by (auto simp: on_error_def on_finally_def warning_def Let_def split: option.splits if_splits)

lemma attempts_keep_truthy_timeout:
  assumes "\<forall>s. truthy_timeout (default_timeout w s)"
    and "\<forall>s. session self = Some s \<longrightarrow> truthy_timeout saved \<longrightarrow> saved = default_timeout w s"
  shows "default_timeout (state_of (attempts n self args saved w)) = default_timeout w \<and>
         set (invoked (state_of (attempts n self args saved w)))
           \<subseteq> set (invoked w) \<union> {call. snd call = default_timeout w}"
  using assms
proof (induction n arbitrary: self saved w)
  case 0
  show ?case by (simp add: state_of_def)
next
  case (Suc n)
  let ?w1 = "w\<lparr>invoked := invoked w @ [(args, default_timeout w)]\<rparr>"
  have fin: "on_finally self saved ?w1 = ?w1"
    using Suc.prems(2) by (intro on_finally_same) simp
  show ?case
  proof (cases "func self args w")
    case (Returns v)
    then show ?thesis
      by (simp add: invoke_def state_of_def fin)
  next
    case (Raises e)
    show ?thesis
    proof (cases "e = error self")
      case False
      with Raises show ?thesis
        by (simp add: invoke_def state_of_def fin)
    next
      case True
      obtain self2 saved2 w2 where oe: "on_error self saved ?w1 = (self2, saved2, w2)"
        by (cases "on_error self saved ?w1") auto
      let ?w3 = "on_finally self2 saved2 w2"
      have t1: "\<forall>s. truthy_timeout (default_timeout ?w1 s)"
        using Suc.prems(1) by simp
      have s1: "\<forall>s. session self = Some s \<longrightarrow> truthy_timeout saved \<longrightarrow>
                  saved = default_timeout ?w1 s"
        using Suc.prems(2) by simp
      from on_error_then_finally [OF oe t1 s1]
      have dt: "default_timeout ?w3 = default_timeout w"
        and inv: "\<forall>s. session self2 = Some s \<longrightarrow> truthy_timeout saved2 \<longrightarrow>
                    saved2 = default_timeout ?w3 s"
        by simp_all
      have log: "invoked ?w3 = invoked w @ [(args, default_timeout w)]"
        using oe by (auto simp: on_error_def on_finally_def warning_def Let_def
            split: option.splits if_splits)
      have step: "attempts (Suc n) self args saved w = attempts n self2 args saved2 ?w3"
        using Raises True oe by (simp add: invoke_def)
      have t3: "\<forall>s. truthy_timeout (default_timeout ?w3 s)"
        using Suc.prems(1) dt by simp
      from Suc.IH [OF t3 inv]
      have ih: "default_timeout (state_of (attempts n self2 args saved2 ?w3)) = default_timeout w"
        and ih2: "set (invoked (state_of (attempts n self2 args saved2 ?w3)))
                    \<subseteq> set (invoked ?w3) \<union> {call. snd call = default_timeout w}"
        by (simp_all add: dt)
      from ih2 have "set (invoked (state_of (attempts n self2 args saved2 ?w3)))
                    \<subseteq> set (invoked w) \<union> {call. snd call = default_timeout w}"
        unfolding log by auto
      with ih show ?thesis
        unfolding step by simp
    qed
  qed
qed

lemma execute_keeps_truthy_timeout:
  assumes "\<forall>s. truthy_timeout (default_timeout w s)"
  shows "default_timeout (state_of (execute self args w)) = default_timeout w \<and>
         set (invoked (state_of (execute self args w)))
           \<subseteq> set (invoked w) \<union> {call. snd call = default_timeout w}"
  unfolding execute_def
  by (rule attempts_keep_truthy_timeout [OF assms]) (simp add: truthy_timeout_def)

lemmas run_simps =
  execute_def handel_db_timeout_init_def invoke_def on_error_def on_finally_def warning_def
  truthy_timeout_def Let_def state_of_def result_of_def eval_nat_numeral

text \<open>
  C2. The claim: after an attempt fails with the retryable error and a session handle is
  available, the elevated timeout of 100 is in effect when the next attempt invokes the
  operation. The code at a session whose default timeout is 10 and an operation that always
  times out, with the default bound: the \<^verbatim>\<open>finally\<close> clause of the failed attempt
  puts 10 back before the loop goes on, so the second attempt is invoked with timeout 10
  as the first was.
\<close>

theorem elevated_timeout_not_in_effect:
  "session ((handel_db_timeout_init always_times_out)\<lparr>session := Some 0\<rparr>) = Some 0 \<and>
   default_timeout world0 0 = Some 10 \<and>
   map (\<lambda>call. snd call 0)
     (invoked (state_of (execute ((handel_db_timeout_init always_times_out)\<lparr>session := Some 0\<rparr>) ()
        world0))) = [Some 10, Some 10]"
  by (simp add: run_simps always_times_out_def world0_def)

text \<open>
  C3. The claim: when \<^verbatim>\<open>execute\<close> ends, the session's default timeout is what
  it was before the call, also when that was \<^verbatim>\<open>None\<close> or 0. The code at a session
  without a default timeout and an operation that times out once and then returns: the
  call returns with the timeout left at 100, because the \<^verbatim>\<open>finally\<close> clause tests
  the truth of the recorded value. It is the same for an original timeout of 0.
\<close>

theorem elevated_timeout_not_restored:
  "default_timeout world_no_timeout 0 = None \<and>
   result_of (execute ((handel_db_timeout_init times_out_once)\<lparr>session := Some 0\<rparr>) ()
      world_no_timeout) = Inr 7 \<and>
   default_timeout (state_of (execute ((handel_db_timeout_init times_out_once)\<lparr>session := Some 0\<rparr>) ()
      world_no_timeout)) 0 = Some 100 \<and>
   default_timeout (state_of (execute ((handel_db_timeout_init always_times_out)\<lparr>session := Some 0\<rparr>) ()
      (world_no_timeout\<lparr>default_timeout := (\<lambda>s. Some 0)\<rparr>))) 0 = Some 100"
  by (simp add: run_simps always_times_out_def times_out_once_def world_no_timeout_def)


section \<open>Properties of the facade\<close>

text \<open>
  C5. The claim: on the tree of \<^verbatim>\<open>Animal\<close> the enumeration is
  \<^verbatim>\<open>[Dog, Cat, Puppy]\<close> and \<^verbatim>\<open>drop_tables\<close> drops three tables. The code
  stops at the first concrete class of every branch: it returns \<^verbatim>\<open>[Dog, Cat]\<close>,
  although \<^verbatim>\<open>Puppy\<close> is a concrete type of the tree, and \<^verbatim>\<open>drop_tables\<close>
  with a \<^verbatim>\<open>drop_table\<close> that succeeds invokes it twice, for \<^verbatim>\<open>Dog\<close> and
  for \<^verbatim>\<open>Cat\<close>.
\<close>

theorem get_subclasses_stops_at_concrete:
  "get_subclasses Animal = [Dog, Cat] \<and>
   Puppy \<in> set (concrete_types Animal) \<and>
   Model facade_unbound = models_Model \<and>
   fst (drop_tables always_succeeds facade_unbound world0) = Inr () \<and>
   map fst (invoked (snd (drop_tables always_succeeds facade_unbound world0))) = [Dog, Cat]"
  by (simp add: run_simps drop_tables_def facade_unbound_def models_Model_def Animal_def Dog_def
      Cat_def Puppy_def flatten_def concrete_types_def always_succeeds_def world0_def)

text \<open>
  What \<^verbatim>\<open>init_app\<close> does: it raises \<^verbatim>\<open>NoConfig\<close> exactly when both settings
  are present, the hosts are falsy and the keyspace is truthy.
\<close>

lemma init_app_NoConfig_iff:
  "result_of (init_app connection_setup self a w) = Inl NoConfig \<longleftrightarrow>
     (\<exists>hosts keyspace. config a ''CASSANDRA_HOSTS'' = Some hosts \<and>
        config a ''CASSANDRA_KEYSPACE'' = Some keyspace \<and> \<not> truthy hosts \<and> truthy keyspace)"
  by (auto simp: init_app_def result_of_def Let_def split: option.splits prod.splits)

text \<open>
  C4. The claim: \<^verbatim>\<open>init_app\<close> raises \<^verbatim>\<open>NoConfig\<close> exactly when the hosts
  or the keyspace setting is absent or falsy. The code, with hosts given and the empty
  string as keyspace, does not raise \<^verbatim>\<open>NoConfig\<close> whatever the driver does, and
  with a driver that accepts the call it succeeds and stores the empty keyspace; with the
  hosts setting absent it raises \<^verbatim>\<open>KeyError\<close>.
\<close>

theorem init_app_misses_NoConfig:
  "result_of (init_app connection_setup self app_empty_keyspace w) \<noteq> Inl NoConfig \<and>
   init_app setup_accepts self app_empty_keyspace w =
     (Inr (), self\<lparr>attr_hosts := Some (PyList [PyStr ''127.0.0.1'']), attr_keyspace := Some (PyStr [])\<rparr>, w) \<and>
   init_app connection_setup self app_no_hosts w = (Inl (KeyError ''CASSANDRA_HOSTS''), self, w)"
  by (simp add: init_app_def result_of_def Let_def app_empty_keyspace_def app_no_hosts_def
      setup_accepts_def config_get_def split: option.splits prod.splits)

lemma init_app_keeps_app: "app (fst (snd (init_app connection_setup self a w))) = app self"
  by (simp add: init_app_def Let_def split: option.splits prod.splits)

lemma init_app_ok:
  assumes "init_app connection_setup self a w = (Inr u, db, w1)"
  shows "app db = app self" and "attr_hosts db = config a ''CASSANDRA_HOSTS''"
    and "attr_keyspace db = config a ''CASSANDRA_KEYSPACE''" and "attr_keyspace db \<noteq> None"
  using assms
  by (auto simp: init_app_def Let_def split: option.splits prod.splits if_splits)

lemma CQLAlchemy_init_None:
  "CQLAlchemy_init connection_setup m None w =
     (Inr \<lparr>app = None, Model = m, attr_hosts = None, attr_keyspace = None\<rparr>, w)"
  by (simp add: CQLAlchemy_init_def)

lemma CQLAlchemy_init_Some:
  assumes "CQLAlchemy_init connection_setup m (Some a) w = (Inr db, w1)"
  shows "app db = Some a" and "attr_keyspace db = config a ''CASSANDRA_KEYSPACE''"
    and "attr_keyspace db \<noteq> None"
proof -
  let ?self = "\<lparr>app = Some a, Model = m, attr_hosts = None, attr_keyspace = None\<rparr>"
  obtain r self1 w' where ia: "init_app connection_setup ?self a w = (r, self1, w')"
    by (cases "init_app connection_setup ?self a w") auto
  with assms obtain u where "r = Inr u" and db: "db = self1"
    by (cases r) (auto simp: CQLAlchemy_init_def)
  with ia have "init_app connection_setup ?self a w = (Inr u, db, w')"
    by simp
  from init_app_ok [OF this]
  show "app db = Some a" and "attr_keyspace db = config a ''CASSANDRA_KEYSPACE''"
    and "attr_keyspace db \<noteq> None"
    by simp_all
qed

lemma set_keyspace_no_app:
  "app self = None \<Longrightarrow> \<not> truthy keyspace_name \<Longrightarrow>
     set_keyspace self keyspace_name w = (Inl (AttributeError ''config''), self, w)"
  by (simp add: set_keyspace_def)

lemma set_keyspace_falsy:
  "app self = Some a \<Longrightarrow> config a ''CASSANDRA_KEYSPACE'' = Some configured \<Longrightarrow>
   \<not> truthy keyspace_name \<Longrightarrow>
     set_keyspace self keyspace_name w =
       (Inr (), self\<lparr>attr_keyspace := Some configured\<rparr>, w\<lparr>DEFAULT_KEYSPACE := configured\<rparr>)"
  by (simp add: set_keyspace_def)

text \<open>
  C8. The claim: on every facade bound to an application configuration,
  \<^verbatim>\<open>set_keyspace()\<close> resets the keyspace to the configured value. The code on a
  facade made by \<^verbatim>\<open>CQLAlchemy()\<close> and bound by \<^verbatim>\<open>init_app\<close> to the complete
  configuration: \<^verbatim>\<open>set_keyspace()\<close> raises \<^verbatim>\<open>AttributeError\<close> and changes
  nothing.
\<close>

theorem set_keyspace_fails_after_init_app:
  "CQLAlchemy_init setup_accepts models_Model None world0 = (Inr facade_unbound, world0) \<and>
   init_app setup_accepts facade_unbound app_ok world0 = (Inr (), facade_late_bound, world0) \<and>
   set_keyspace facade_late_bound PyNone world0 =
     (Inl (AttributeError ''config''), facade_late_bound, world0)"
  by (simp add: CQLAlchemy_init_def init_app_def set_keyspace_def setup_accepts_def config_get_def
      facade_unbound_def facade_late_bound_def app_ok_def Let_def)

text \<open>
  C9. A facade constructed without an application and then bound by \<^verbatim>\<open>init_app\<close>
  has its hosts and keyspace stored and its \<^verbatim>\<open>app\<close> attribute still \<^verbatim>\<open>None\<close>,
  and \<^verbatim>\<open>set_keyspace()\<close> on it raises \<^verbatim>\<open>AttributeError\<close>, leaving the facade
  and the state as they were. On a facade constructed with the application,
  \<^verbatim>\<open>set_keyspace()\<close> sets the facade's keyspace and the process-wide default
  keyspace to the configured value.
\<close>

theorem set_keyspace_reset_needs_constructor_app:
  "(CQLAlchemy_init connection_setup m None w = (Inr fresh, w_new) \<and>
    init_app connection_setup fresh a w_new = (Inr (), db_late, w_late) \<longrightarrow>
      app db_late = None \<and>
      attr_hosts db_late = config a ''CASSANDRA_HOSTS'' \<and>
      attr_keyspace db_late = config a ''CASSANDRA_KEYSPACE'' \<and>
      set_keyspace db_late PyNone w_then = (Inl (AttributeError ''config''), db_late, w_then)) \<and>
   (CQLAlchemy_init connection_setup m (Some a) w = (Inr db_ctor, w_ctor) \<longrightarrow>
      (\<exists>configured. config a ''CASSANDRA_KEYSPACE'' = Some configured \<and>
         attr_keyspace db_ctor = Some configured \<and>
         set_keyspace db_ctor PyNone w_then =
           (Inr (), db_ctor\<lparr>attr_keyspace := Some configured\<rparr>, w_then\<lparr>DEFAULT_KEYSPACE := configured\<rparr>)))"
proof (intro conjI impI)
  assume h: "CQLAlchemy_init connection_setup m None w = (Inr fresh, w_new) \<and>
    init_app connection_setup fresh a w_new = (Inr (), db_late, w_late)"
  then have "app fresh = None"
    by (auto simp: CQLAlchemy_init_None)
  with init_app_ok [of connection_setup fresh a w_new "()" db_late w_late] h
  show "app db_late = None" and "attr_hosts db_late = config a ''CASSANDRA_HOSTS''"
    and "attr_keyspace db_late = config a ''CASSANDRA_KEYSPACE''"
    by simp_all
  then show "set_keyspace db_late PyNone w_then = (Inl (AttributeError ''config''), db_late, w_then)"
    by (simp add: set_keyspace_no_app)
next
  assume h: "CQLAlchemy_init connection_setup m (Some a) w = (Inr db_ctor, w_ctor)"
  from CQLAlchemy_init_Some [OF h] obtain configured
    where c: "config a ''CASSANDRA_KEYSPACE'' = Some configured" "attr_keyspace db_ctor = Some configured"
      and a: "app db_ctor = Some a"
    by (cases "attr_keyspace db_ctor") auto
  from set_keyspace_falsy [OF a c(1), of PyNone w_then] c
  show "\<exists>configured. config a ''CASSANDRA_KEYSPACE'' = Some configured \<and>
         attr_keyspace db_ctor = Some configured \<and>
         set_keyspace db_ctor PyNone w_then =
           (Inr (), db_ctor\<lparr>attr_keyspace := Some configured\<rparr>, w_then\<lparr>DEFAULT_KEYSPACE := configured\<rparr>)"
    by simp
qed

text \<open>
  The hypotheses of C9 hold of the complete configuration with a driver that accepts the
  call, on both ways to the facade.
\<close>

theorem set_keyspace_reset_needs_constructor_app_witness:
  "set_keyspace facade_late_bound PyNone (world0 :: unit world) =
     (Inl (AttributeError ''config''), facade_late_bound, world0) \<and>
   set_keyspace facade_bound PyNone (world0 :: unit world) =
     (Inr (), facade_bound, world0\<lparr>DEFAULT_KEYSPACE := PyStr ''ks''\<rparr>)"
proof -
  have late: "CQLAlchemy_init setup_accepts models_Model None (world0 :: unit world) =
      (Inr facade_unbound, world0) \<and>
    init_app setup_accepts facade_unbound app_ok (world0 :: unit world) =
      (Inr (), facade_late_bound, world0)"
    by (simp add: CQLAlchemy_init_def init_app_def setup_accepts_def config_get_def
        facade_unbound_def facade_late_bound_def app_ok_def Let_def)
  have early: "CQLAlchemy_init setup_accepts models_Model (Some app_ok) (world0 :: unit world) =
      (Inr facade_bound, world0)"
    by (simp add: CQLAlchemy_init_def init_app_def setup_accepts_def config_get_def
        facade_bound_def app_ok_def Let_def)
  have ks: "config app_ok ''CASSANDRA_KEYSPACE'' = Some (PyStr ''ks'')"
    by (simp add: app_ok_def)
  have same: "facade_bound\<lparr>attr_keyspace := Some (PyStr ''ks'')\<rparr> = facade_bound"
    by (simp add: facade_bound_def)
  note inst = set_keyspace_reset_needs_constructor_app
    [where connection_setup = setup_accepts and m = models_Model and w = "world0 :: unit world"
       and fresh = facade_unbound and w_new = world0 and a = app_ok and db_late = facade_late_bound
       and w_late = world0 and w_then = world0 and db_ctor = facade_bound and w_ctor = world0]
  from inst late have 1: "set_keyspace facade_late_bound PyNone (world0 :: unit world) =
     (Inl (AttributeError ''config''), facade_late_bound, world0)"
    by blast
  from inst early obtain configured where
    "config app_ok ''CASSANDRA_KEYSPACE'' = Some configured"
    "set_keyspace facade_bound PyNone (world0 :: unit world) =
       (Inr (), facade_bound\<lparr>attr_keyspace := Some configured\<rparr>,
        world0\<lparr>DEFAULT_KEYSPACE := configured\<rparr>)"
    by blast
  with ks same have 2: "set_keyspace facade_bound PyNone (world0 :: unit world) =
     (Inr (), facade_bound, world0\<lparr>DEFAULT_KEYSPACE := PyStr ''ks''\<rparr>)"
    by simp
  from 1 2 show ?thesis
    by (rule conjI)
qed

text \<open>
  C10, as stated, fails: on a facade whose application configures the empty string as
  keyspace, which \<^verbatim>\<open>CQLAlchemy(app)\<close> makes when the driver accepts the call,
  \<^verbatim>\<open>set_keyspace("")\<close> sets the facade's keyspace and the process-wide default
  keyspace to the empty string.
\<close>

theorem set_keyspace_sets_empty_keyspace:
  "app facade_empty_keyspace = Some app_empty_keyspace \<and>
   CQLAlchemy_init setup_accepts models_Model (Some app_empty_keyspace) (world0 :: unit world) =
     (Inr facade_empty_keyspace, world0) \<and>
   attr_keyspace (fst (snd (set_keyspace facade_empty_keyspace (PyStr []) (world0 :: unit world)))) =
     Some (PyStr []) \<and>
   DEFAULT_KEYSPACE (state_of (set_keyspace facade_empty_keyspace (PyStr []) (world0 :: unit world))) =
     PyStr []"
  by (simp add: CQLAlchemy_init_def init_app_def set_keyspace_def setup_accepts_def config_get_def
      facade_empty_keyspace_def app_empty_keyspace_def state_of_def Let_def)

text \<open>
  C10, amended. On a facade whose application configures a keyspace, \<^verbatim>\<open>set_keyspace\<close>
  with a falsy argument does what it does with no argument: it sets the facade's keyspace
  and the process-wide default keyspace to the configured value. When the configured value
  is not the empty string, neither becomes the empty string.
\<close>

theorem set_keyspace_falsy_resets:
  assumes "app self = Some a"
    and "config a ''CASSANDRA_KEYSPACE'' = Some configured"
    and "\<not> truthy keyspace_name"
  shows "set_keyspace self keyspace_name w =
           (Inr (), self\<lparr>attr_keyspace := Some configured\<rparr>, w\<lparr>DEFAULT_KEYSPACE := configured\<rparr>) \<and>
         set_keyspace self keyspace_name w = set_keyspace self PyNone w \<and>
         (configured \<noteq> PyStr [] \<longrightarrow>
            attr_keyspace (fst (snd (set_keyspace self keyspace_name w))) \<noteq> Some (PyStr []) \<and>
            DEFAULT_KEYSPACE (state_of (set_keyspace self keyspace_name w)) \<noteq> PyStr [])"
proof -
  have 1: "set_keyspace self keyspace_name w =
      (Inr (), self\<lparr>attr_keyspace := Some configured\<rparr>, w\<lparr>DEFAULT_KEYSPACE := configured\<rparr>)"
    by (rule set_keyspace_falsy [OF assms])
  have 2: "set_keyspace self PyNone w =
      (Inr (), self\<lparr>attr_keyspace := Some configured\<rparr>, w\<lparr>DEFAULT_KEYSPACE := configured\<rparr>)"
    by (rule set_keyspace_falsy [OF assms(1,2)]) simp
  from 1 2 show ?thesis
    by (simp add: state_of_def)
qed

text \<open>
  The hypotheses of the amended C10 hold of the facade constructed from the complete
  configuration and the empty string as argument.
\<close>

theorem set_keyspace_falsy_resets_witness:
  "set_keyspace facade_bound (PyStr []) (world0 :: unit world) =
     (Inr (), facade_bound, world0\<lparr>DEFAULT_KEYSPACE := PyStr ''ks''\<rparr>) \<and>
   set_keyspace facade_bound (PyStr []) (world0 :: unit world) =
     set_keyspace facade_bound PyNone world0 \<and>
   attr_keyspace (fst (snd (set_keyspace facade_bound (PyStr []) (world0 :: unit world)))) \<noteq>
     Some (PyStr [])"
proof -
  have a: "app facade_bound = Some app_ok"
    by (simp add: facade_bound_def)
  have ks: "config app_ok ''CASSANDRA_KEYSPACE'' = Some (PyStr ''ks'')"
    by (simp add: app_ok_def)
  have falsy: "\<not> truthy (PyStr [])"
    by simp
  have same: "facade_bound\<lparr>attr_keyspace := Some (PyStr ''ks'')\<rparr> = facade_bound"
    by (simp add: facade_bound_def)
  note inst = set_keyspace_falsy_resets [OF a ks falsy, of "world0 :: unit world", unfolded same]
  have ne: "PyStr ''ks'' \<noteq> PyStr []"
    by simp
  from inst have r: "set_keyspace facade_bound (PyStr []) (world0 :: unit world) =
      (Inr (), facade_bound, world0\<lparr>DEFAULT_KEYSPACE := PyStr ''ks''\<rparr>)"
    by (rule conjunct1)
  from inst have e: "set_keyspace facade_bound (PyStr []) (world0 :: unit world) =
      set_keyspace facade_bound PyNone world0"
    by blast
  from inst ne have n: "attr_keyspace (fst (snd (set_keyspace facade_bound (PyStr []) (world0 :: unit world)))) \<noteq>
      Some (PyStr [])"
    by blast
  from r e n show ?thesis
    by (intro conjI)
qed

end
